theory Spec2Isabelle
  imports Complex_Main "HOL-Library.Word"
begin

section \<open>The header \<open>include/util_ros_cam.h\<close> as declarations\<close>

text \<open>
  The repository fragment is one C++ header. It holds declarations only: the class
  \<open>gazebo::GazeboRosCameraUtils\<close> with its member functions and data members, and a forward
  declaration of \<open>GazeboRosMultiCamera\<close>. No member function has a body in the header. The
  declarations are transcribed here one by one, in the order of the header, so that what
  the header fixes (names, types, access, default arguments, default member initialisers)
  can be computed with.
\<close>

datatype access = Public | Protected | Private

text \<open>The types that occur in the header, spelled after their C++ names.\<close>

datatype cpp_type =
    Void
  | Bool
  | SignedInt
  | UnsignedInt
  | UnsignedChar
  | Double
  | StdString
  | Const cpp_type
  | Ref cpp_type
  | Pointer cpp_type
  | StdSharedPtr cpp_type
  | BoostSharedPtr cpp_type
  | BoostMutex
  | BoostThread
  | BoostFunctionVoid
  | RclcppNode
  | CallbackGroupSharedPtr
  | SingleThreadedExecutor
  | CameraInfoPublisherSharedPtr
  | ImageTransportPublisher
  | ImageTransport
  | RmwQosProfile
  | ImageMsg
  | Float64SharedPtr
  | CommonTime
  | SensorPtr
  | CameraPtr
  | WorldPtr
  | ConnectionPtr
  | SdfElementPtr
  | EventVoid

text \<open>
  Expressions as far as the header writes any: the string literal of a default argument,
  the name of a constant in a default member initialiser. A call site passes expressions
  too.
\<close>

datatype expr = StringLiteral string | Identifier string

text \<open>A parameter: its type, its name (empty when the header leaves it out), its default.\<close>

datatype param = Param cpp_type string "expr option"

text \<open>
  A member declaration: a constructor, the destructor, a member function with its return
  type, a data member with its default member initialiser, or a friend declaration.
\<close>

datatype member =
    Constructor access "param list"
  | Destructor access
  | Method access cpp_type string "param list"
  | Field access cpp_type string "expr option"
  | Friend string

datatype toplevel =
    ClassForward string
  | ClassDefinition string "member list"

text \<open>
  The members of \<open>GazeboRosCameraUtils\<close>, header lines 55 to 192. Lines 160 and 161 carry no
  access label of their own; the label in force there is the \<open>protected:\<close> of line 157.
\<close>

definition Load3 :: member where
  "Load3 = Method Public Void ''Load''
     [Param SensorPtr ''_parent'' None,
      Param SdfElementPtr ''_sdf'' None,
      Param (Ref (Const StdString)) ''_camera_name_suffix'' (Some (StringLiteral ''''))]"

definition Load4 :: member where
  "Load4 = Method Public Void ''Load''
     [Param SensorPtr ''_parent'' None,
      Param SdfElementPtr ''_sdf'' None,
      Param (Ref (Const StdString)) ''_camera_name_suffix'' None,
      Param Double ''_hack_baseline'' None]"

definition GazeboRosCameraUtils_members :: "member list" where
  "GazeboRosCameraUtils_members =
    [Constructor Public [],
     Destructor Public,
     Load3,
     Load4,
     Method Public ConnectionPtr ''OnLoad'' [Param (Ref (Const BoostFunctionVoid)) '''' None],
     Method Private Void ''Init'' [],
     Method Protected Void ''PutCameraData'' [Param (Pointer (Const UnsignedChar)) ''_src'' None],
     Method Protected Void ''PutCameraData''
       [Param (Pointer (Const UnsignedChar)) ''_src'' None,
        Param (Ref CommonTime) ''last_update_time'' None],
     Field Protected (StdSharedPtr SignedInt) ''image_connect_count_'' None,
     Field Protected (BoostSharedPtr BoostMutex) ''image_connect_count_lock_'' None,
     Method Protected Void ''ImageConnect'' [],
     Method Protected Void ''ImageDisconnect'' [],
     Field Protected (StdSharedPtr Bool) ''was_active_'' None,
     Method Private Void ''SetHFOV'' [Param (Const Float64SharedPtr) ''hfov'' None],
     Method Private Void ''SetUpdateRate'' [Param (Const Float64SharedPtr) ''update_rate'' None],
     Field Protected (StdSharedPtr RclcppNode) ''node_handle_'' None,
     Field Protected ImageTransportPublisher ''image_pub_'' None,
     Field Private (StdSharedPtr ImageTransport) ''itnode_'' None,
     Field Protected RmwQosProfile ''qos_profile''
       (Some (Identifier ''rmw_qos_profile_sensor_data'')),
     Field Protected ImageMsg ''image_msg_'' None,
     Field Private StdString ''robot_namespace_'' None,
     Field Private StdString ''camera_name_'' None,
     Field Protected StdString ''image_topic_name_'' None,
     Method Protected Void ''PublishCameraInfo''
       [Param CameraInfoPublisherSharedPtr ''camera_info_pub_'' None],
     Method Protected Void ''PublishCameraInfo'' [Param (Ref CommonTime) ''last_update_time'' None],
     Method Protected Void ''PublishCameraInfo'' [],
     Method Private Void ''InfoConnect'' [],
     Method Private Void ''InfoDisconnect'' [],
     Field Protected CameraInfoPublisherSharedPtr ''camera_info_pub_'' None,
     Field Protected StdString ''camera_info_topic_name_'' None,
     Field Protected CommonTime ''last_info_update_time_'' None,
     Field Protected StdString ''frame_name_'' None,
     Field Protected Double ''update_rate_'' None,
     Field Protected Double ''update_period_'' None,
     Field Protected CommonTime ''last_update_time_'' None,
     Field Protected Double ''cx_prime_'' None,
     Field Protected Double ''cx_'' None,
     Field Protected Double ''cy_'' None,
     Field Protected Double ''focal_length_'' None,
     Field Protected Double ''hack_baseline_'' None,
     Field Protected Double ''distortion_k1_'' None,
     Field Protected Double ''distortion_k2_'' None,
     Field Protected Double ''distortion_k3_'' None,
     Field Protected Double ''distortion_t1_'' None,
     Field Protected Double ''distortion_t2_'' None,
     Field Protected BoostMutex ''lock_'' None,
     Field Protected StdString ''type_'' None,
     Field Protected SignedInt ''skip_'' None,
     Field Protected CallbackGroupSharedPtr ''camera_queue_'' None,
     Field Protected SingleThreadedExecutor ''executor'' None,
     Method Protected Void ''CameraQueueThread'' [],
     Field Protected BoostThread ''callback_queue_thread_'' None,
     Field Protected UnsignedInt ''width_'' None,
     Field Protected UnsignedInt ''height_'' None,
     Field Protected UnsignedInt ''depth_'' None,
     Field Protected StdString ''format_'' None,
     Field Protected SensorPtr ''parentSensor_'' None,
     Field Protected CameraPtr ''camera_'' None,
     Field Protected WorldPtr ''world_'' None,
     Field Private ConnectionPtr ''newFrameConnection_'' None,
     Field Protected CommonTime ''sensor_update_time_'' None,
     Field Protected WorldPtr ''world'' None,
     Field Private SdfElementPtr ''sdf'' None,
     Method Private Void ''LoadThread'' [],
     Field Private BoostThread ''deferred_load_thread_'' None,
     Field Private EventVoid ''load_event_'' None,
     Field Protected Bool ''initialized_'' None,
     Friend ''GazeboRosMultiCamera'']"

text \<open>The declarations of namespace \<open>gazebo\<close> in the header, lines 48 to 194.\<close>

definition util_ros_cam_h :: "toplevel list" where
  "util_ros_cam_h =
    [ClassForward ''GazeboRosMultiCamera'',
     ClassDefinition ''GazeboRosCameraUtils'' GazeboRosCameraUtils_members]"

subsection \<open>Reading the declarations\<close>

fun defined_classes :: "toplevel list \<Rightarrow> string list" where
  "defined_classes [] = []"
| "defined_classes (ClassDefinition n ms # ds) = n # defined_classes ds"
| "defined_classes (ClassForward n # ds) = defined_classes ds"

fun forward_classes :: "toplevel list \<Rightarrow> string list" where
  "forward_classes [] = []"
| "forward_classes (ClassForward n # ds) = n # forward_classes ds"
| "forward_classes (ClassDefinition n ms # ds) = forward_classes ds"

fun method_name :: "member \<Rightarrow> string option" where
  "method_name (Method a t n ps) = Some n"
| "method_name m = None"

fun return_type :: "member \<Rightarrow> cpp_type option" where
  "return_type (Method a t n ps) = Some t"
| "return_type m = None"

fun params :: "member \<Rightarrow> param list" where
  "params (Method a t n ps) = ps"
| "params (Constructor a ps) = ps"
| "params m = []"

fun param_type :: "param \<Rightarrow> cpp_type" where
  "param_type (Param t n d) = t"

fun param_default :: "param \<Rightarrow> expr option" where
  "param_default (Param t n d) = d"

fun field_name :: "member \<Rightarrow> string option" where
  "field_name (Field a t n i) = Some n"
| "field_name m = None"

fun field_type :: "member \<Rightarrow> cpp_type option" where
  "field_type (Field a t n i) = Some t"
| "field_type m = None"

fun field_initializer :: "member \<Rightarrow> expr option" where
  "field_initializer (Field a t n i) = i"
| "field_initializer m = None"

text \<open>The names of the data members of a given type, in declaration order.\<close>

definition fields_of_type :: "cpp_type \<Rightarrow> member list \<Rightarrow> string list" where
  "fields_of_type t ms = List.map_filter field_name (filter (\<lambda>m. field_type m = Some t) ms)"

text \<open>The names of the member functions, in declaration order (overloads repeat).\<close>

definition method_names :: "member list \<Rightarrow> string list" where
  "method_names ms = List.map_filter method_name ms"

text \<open>The member functions with a parameter of a given type.\<close>

definition methods_taking :: "cpp_type \<Rightarrow> member list \<Rightarrow> string list" where
  "methods_taking t ms =
     List.map_filter method_name (filter (\<lambda>m. t \<in> set (map param_type (params m))) ms)"

text \<open>The default member initialiser of the data member of a given name, if it has one.\<close>

fun member_initializer :: "member list \<Rightarrow> string \<Rightarrow> expr option" where
  "member_initializer [] n = None"
| "member_initializer (m # ms) n =
     (if field_name m = Some n then field_initializer m else member_initializer ms n)"

subsection \<open>Calls and default arguments\<close>

text \<open>
  The C++ rule for default arguments: a call may leave out trailing arguments whose
  parameters have defaults, and the defaults are then passed in their place. A call with
  too many arguments, or with a missing argument that has no default, does not match the
  declaration.
\<close>

fun complete_args :: "param list \<Rightarrow> expr list \<Rightarrow> expr list option" where
  "complete_args [] [] = Some []"
| "complete_args [] (a # as) = None"
| "complete_args (Param t n d # ps) [] =
     (case d of None \<Rightarrow> None | Some e \<Rightarrow> map_option ((#) e) (complete_args ps []))"
| "complete_args (Param t n d # ps) (a # as) = map_option ((#) a) (complete_args ps as)"

text \<open>
  The overloads of a name that a call matches by its number of arguments, each with the
  arguments the callee receives.
\<close>

definition resolve_call :: "member list \<Rightarrow> string \<Rightarrow> expr list \<Rightarrow> (member \<times> expr list) list" where
  "resolve_call ms f as =
     List.map_filter
       (\<lambda>m. if method_name m = Some f then map_option (Pair m) (complete_args (params m) as)
            else None)
       ms"

text \<open>
  What a call does, given what each member function does with the arguments it receives
  (\<open>body\<close>; the bodies are not in the header).
\<close>

definition invoke ::
  "(member \<Rightarrow> expr list \<Rightarrow> 'r) \<Rightarrow> member list \<Rightarrow> string \<Rightarrow> expr list \<Rightarrow> 'r list" where
  "invoke body ms f as = map (\<lambda>(m, as'). body m as') (resolve_call ms f as)"

section \<open>The state the member functions act on\<close>

text \<open>
  The header gives the data members and the signatures of the member functions; their
  bodies are in an implementation file that is not part of the fragment. The state below
  holds the data members the modelled functions read or write, under the header's names
  (without the trailing underscore, which a name cannot end with here), and the two
  simulator objects the class points to.

  \<open>image_connect_count_\<close> is a \<open>std::shared_ptr<int>\<close>, \<open>was_active_\<close> a
  \<open>std::shared_ptr<bool>\<close>: the state holds the pointed-to cells, which every object that
  shares them acts on. The \<open>int\<close> is a 32-bit two's complement word, read with \<open>sint\<close>;
  C++ leaves its overflow undefined, and the statements about its value keep within the
  range. A \<open>double\<close> is only stored and handed on, never computed with, so its type is left
  open (\<open>'d\<close>). The data members that are not listed are the record's extension (\<open>'z\<close>).
\<close>

text \<open>\<open>std_msgs::msg::Float64\<close>: one field, \<open>data\<close>.\<close>

datatype 'd Float64 = Float64 (data: 'd)

text \<open>
  The simulator's sensor (\<open>sensors::Sensor\<close>, behind \<open>parentSensor_\<close>), as far as the class
  uses it: whether it is active, and its update rate.
\<close>

record 'd Sensor =
  IsActive :: bool
  UpdateRate :: 'd

text \<open>The simulator's camera (\<open>rendering::Camera\<close>, behind \<open>camera_\<close>): its horizontal field of view.\<close>

record 'd Camera =
  HFOV :: 'd

text \<open>
  The class. \<open>qos_profile\<close> holds its initialiser as the header writes it (an expression
  that names a constant of the middleware; \<open>None\<close> were there no initialiser).
\<close>

record 'd GazeboRosCameraUtils =
  image_connect_count :: "32 word"
  was_active :: bool
  qos_profile :: "expr option"
  parentSensor :: "'d Sensor"
  camera :: "'d Camera"
  update_rate :: 'd
  update_period :: 'd

text \<open>
  Modelled from the spec: the constructor and the part of \<open>Load\<close> that binds the sensor and
  the camera (both bodies are missing from the sources). The connection counter of the
  spec's "connect/disconnect reference counting" starts at zero and no subscription has
  been seen; \<open>qos_profile\<close> gets the default member initialiser of header line 107; the
  sensor, the camera and the configured rate and period are what \<open>Load\<close> is given.
\<close>

definition GazeboRosCameraUtils_init ::
  "'d Sensor \<Rightarrow> 'd Camera \<Rightarrow> 'd \<Rightarrow> 'd \<Rightarrow> 'd GazeboRosCameraUtils" where
  "GazeboRosCameraUtils_init sensor cam rate period =
     \<lparr>image_connect_count = 0,
      was_active = False,
      qos_profile = member_initializer GazeboRosCameraUtils_members ''qos_profile'',
      parentSensor = sensor,
      camera = cam,
      update_rate = rate,
      update_period = period\<rparr>"

text \<open>
  Modelled from the spec: the body of \<open>ImageConnect\<close> (missing from the sources), after the
  spec's "connect/disconnect counters" and "topic subscription-driven activation" and the
  header's comments on lines 86 and 93 to 95 ("Keep track of number of image connections";
  "Keep track when we activate this camera through ros subscription, was it already
  active?"). On the first connection the sensor's active state is remembered; the counter
  goes up by one; the sensor is activated.
\<close>

definition ImageConnect ::
  "('d, 'z) GazeboRosCameraUtils_scheme \<Rightarrow> ('d, 'z) GazeboRosCameraUtils_scheme" where
  "ImageConnect s =
     (let s1 = (if image_connect_count s = 0
                then s\<lparr>was_active := IsActive (parentSensor s)\<rparr> else s);
          s2 = s1\<lparr>image_connect_count := image_connect_count s1 + 1\<rparr>
      in s2\<lparr>parentSensor := (parentSensor s2)\<lparr>IsActive := True\<rparr>\<rparr>)"

text \<open>
  Modelled from the spec: the body of \<open>ImageDisconnect\<close> (missing from the sources), after
  the same sentences and the header's "resume state when unsubscribed" (line 95). The
  counter goes down by one; when no connection is left, the sensor gets back the active
  state that was remembered.
\<close>

definition ImageDisconnect ::
  "('d, 'z) GazeboRosCameraUtils_scheme \<Rightarrow> ('d, 'z) GazeboRosCameraUtils_scheme" where
  "ImageDisconnect s =
     (let s1 = s\<lparr>image_connect_count := image_connect_count s - 1\<rparr>
      in if sint (image_connect_count s1) \<le> 0
         then s1\<lparr>parentSensor := (parentSensor s1)\<lparr>IsActive := was_active s1\<rparr>\<rparr>
         else s1)"

text \<open>
  Modelled from the spec: the body of \<open>SetHFOV\<close> (missing from the sources), after the
  spec's "forward configuration changes (field of view, update rate) from middleware
  messages back into the simulator's sensor object". The message's value becomes the
  camera's horizontal field of view.
\<close>

definition SetHFOV ::
  "'d Float64 \<Rightarrow> ('d, 'z) GazeboRosCameraUtils_scheme \<Rightarrow> ('d, 'z) GazeboRosCameraUtils_scheme" where
  "SetHFOV hfov s = s\<lparr>camera := (camera s)\<lparr>HFOV := data hfov\<rparr>\<rparr>"

text \<open>
  Modelled from the spec: the body of \<open>SetUpdateRate\<close> (missing from the sources), after
  the same sentence. The message's value becomes the sensor's update rate.
\<close>

definition SetUpdateRate ::
  "'d Float64 \<Rightarrow> ('d, 'z) GazeboRosCameraUtils_scheme \<Rightarrow> ('d, 'z) GazeboRosCameraUtils_scheme" where
  "SetUpdateRate rate s = s\<lparr>parentSensor := (parentSensor s)\<lparr>UpdateRate := data rate\<rparr>\<rparr>"

subsection \<open>Sequences of calls\<close>

datatype 'd call =
    CallImageConnect
  | CallImageDisconnect
  | CallSetHFOV "'d Float64"
  | CallSetUpdateRate "'d Float64"

fun exec_call ::
  "'d call \<Rightarrow> ('d, 'z) GazeboRosCameraUtils_scheme \<Rightarrow> ('d, 'z) GazeboRosCameraUtils_scheme" where
  "exec_call CallImageConnect s = ImageConnect s"
| "exec_call CallImageDisconnect s = ImageDisconnect s"
| "exec_call (CallSetHFOV m) s = SetHFOV m s"
| "exec_call (CallSetUpdateRate m) s = SetUpdateRate m s"

fun run_calls ::
  "'d call list \<Rightarrow> ('d, 'z) GazeboRosCameraUtils_scheme \<Rightarrow> ('d, 'z) GazeboRosCameraUtils_scheme" where
  "run_calls [] s = s"
| "run_calls (c # cs) s = run_calls cs (exec_call c s)"

text \<open>
  \<open>matched n calls\<close>: with \<open>n\<close> connections open, every \<open>ImageDisconnect\<close> of \<open>calls\<close>
  closes a connection that an earlier \<open>ImageConnect\<close> opened (or one of the \<open>n\<close>), as when
  each disconnection is that of a subscriber that connected before. Calls of the two
  handlers may come in between.
\<close>

fun matched :: "nat \<Rightarrow> 'd call list \<Rightarrow> bool" where
  "matched n [] = True"
| "matched n (CallImageConnect # cs) = matched (Suc n) cs"
| "matched n (CallImageDisconnect # cs) = (case n of 0 \<Rightarrow> False | Suc k \<Rightarrow> matched k cs)"
| "matched n (CallSetHFOV m # cs) = matched n cs"
| "matched n (CallSetUpdateRate m # cs) = matched n cs"

text \<open>The number of connections open after \<open>calls\<close>, from \<open>n\<close> open ones.\<close>

fun open_after :: "nat \<Rightarrow> 'd call list \<Rightarrow> nat" where
  "open_after n [] = n"
| "open_after n (CallImageConnect # cs) = open_after (Suc n) cs"
| "open_after n (CallImageDisconnect # cs) = open_after (n - 1) cs"
| "open_after n (CallSetHFOV m # cs) = open_after n cs"
| "open_after n (CallSetUpdateRate m # cs) = open_after n cs"

text \<open>
  What holds between the calls, for a sensor whose active state was \<open>a\<close> before the first
  connection: the counter is the number \<open>n\<close> of open connections; with none open the sensor
  is in state \<open>a\<close>, with some open it is active and \<open>a\<close> is remembered.
\<close>

definition subscription_inv ::
  "bool \<Rightarrow> nat \<Rightarrow> ('d, 'z) GazeboRosCameraUtils_scheme \<Rightarrow> bool" where
  "subscription_inv a n s =
     (image_connect_count s = of_nat n \<and>
      (if n = 0 then IsActive (parentSensor s) = a
       else IsActive (parentSensor s) \<and> was_active s = a))"

section \<open>Calls of \<open>Load\<close>\<close>

lemma Load_is_method [simp]:
  "method_name Load3 = Some ''Load''" "method_name Load4 = Some ''Load''"
  by (simp_all add: Load3_def Load4_def)

lemma complete_args_Load3:
  "complete_args (params Load3) [p, s] = Some [p, s, StringLiteral '''']"
  "complete_args (params Load3) [p, s, c] = Some [p, s, c]"
  by (simp_all add: Load3_def)

lemma complete_args_Load4:
  "complete_args (params Load4) as = (if length as = 4 then Some as else None)"
proof -
  have "complete_args (params Load4) as = None" if "length as \<noteq> 4"
  proof (cases as)
    case Nil then show ?thesis by (simp add: Load4_def)
  next
    case (Cons a1 as1)
    show ?thesis
    proof (cases as1)
      case Nil with Cons show ?thesis by (simp add: Load4_def)
    next
      case (Cons a2 as2)
      note c2 = this
      show ?thesis
      proof (cases as2)
        case Nil with c2 \<open>as = a1 # as1\<close> show ?thesis by (simp add: Load4_def)
      next
        case (Cons a3 as3)
        note c3 = this
        show ?thesis
        proof (cases as3)
          case Nil with c2 c3 \<open>as = a1 # as1\<close> show ?thesis by (simp add: Load4_def)
        next
          case (Cons a4 as4)
          with that c2 c3 \<open>as = a1 # as1\<close> obtain a5 as5 where "as4 = a5 # as5"
            by (cases as4) auto
          with Cons c2 c3 \<open>as = a1 # as1\<close> show ?thesis by (simp add: Load4_def)
        qed
      qed
    qed
  qed
  moreover have "complete_args (params Load4) as = Some as" if "length as = 4"
  proof -
    from that obtain a1 a2 a3 a4 where "as = [a1, a2, a3, a4]"
      by (auto simp: length_Suc_conv numeral_eq_Suc)
    then show ?thesis by (simp add: Load4_def)
  qed
  ultimately show ?thesis by auto
qed

lemma complete_args_Load3_four: "complete_args (params Load3) [p, s, c, b] = None"
  by (simp add: Load3_def)

lemma resolve_Load_two:
  "resolve_call GazeboRosCameraUtils_members ''Load'' [p, s] = [(Load3, [p, s, StringLiteral ''''])]"
  by (simp add: resolve_call_def GazeboRosCameraUtils_members_def complete_args_Load3
      complete_args_Load4)

lemma resolve_Load_three:
  "resolve_call GazeboRosCameraUtils_members ''Load'' [p, s, c] = [(Load3, [p, s, c])]"
  by (simp add: resolve_call_def GazeboRosCameraUtils_members_def complete_args_Load3
      complete_args_Load4)

lemma resolve_Load_four:
  "resolve_call GazeboRosCameraUtils_members ''Load'' [p, s, c, b] = [(Load4, [p, s, c, b])]"
  by (simp add: resolve_call_def GazeboRosCameraUtils_members_def complete_args_Load3_four
      complete_args_Load4)

text \<open>
  C8. The three-parameter \<open>Load\<close> declares the default \<open>""\<close> for \<open>_camera_name_suffix\<close>
  (header line 66). A call \<open>Load(parent, sdf)\<close> matches that overload alone, and the callee
  receives \<open>parent, sdf, ""\<close>: the same overload and the same arguments as for the call
  \<open>Load(parent, sdf, "")\<close>, so whatever the bodies do, the two calls do the same. The
  four-parameter overload declares no default: it matches a call exactly when the call
  passes four arguments, and a four-argument call goes to it.
\<close>

theorem Load_default_camera_name_suffix:
  "map param_default (params Load3) = [None, None, Some (StringLiteral '''')]
   \<and> resolve_call GazeboRosCameraUtils_members ''Load'' [parent, sdf]
       = [(Load3, [parent, sdf, StringLiteral ''''])]
   \<and> resolve_call GazeboRosCameraUtils_members ''Load'' [parent, sdf, StringLiteral '''']
       = [(Load3, [parent, sdf, StringLiteral ''''])]
   \<and> invoke body GazeboRosCameraUtils_members ''Load'' [parent, sdf]
       = invoke body GazeboRosCameraUtils_members ''Load'' [parent, sdf, StringLiteral '''']
   \<and> map param_default (params Load4) = [None, None, None, None]
   \<and> complete_args (params Load4) as = (if length as = 4 then Some as else None)
   \<and> resolve_call GazeboRosCameraUtils_members ''Load'' [parent, sdf, suffix, baseline]
       = [(Load4, [parent, sdf, suffix, baseline])]"
proof -
  have "map param_default (params Load3) = [None, None, Some (StringLiteral '''')]"
    by (simp add: Load3_def)
  moreover have "map param_default (params Load4) = [None, None, None, None]"
    by (simp add: Load4_def)
  ultimately show ?thesis
    by (simp add: resolve_Load_two resolve_Load_three resolve_Load_four invoke_def
        complete_args_Load4)
qed

section \<open>What the class declares\<close>

text \<open>
  C3, as the header has it. The class declares two data members of type \<open>boost::thread\<close>,
  \<open>callback_queue_thread_\<close> (line 163) and \<open>deferred_load_thread_\<close> (line 186), and a member
  function for each to run, \<open>CameraQueueThread\<close> (line 162) and \<open>LoadThread\<close> (line 185),
  next to the connect and disconnect functions, the image publishing (\<open>PutCameraData\<close>) and
  the camera-info publishing (\<open>PublishCameraInfo\<close>). So the deferred-initialisation thread
  is one of two background threads of the class, not the only one.
\<close>

theorem background_threads:
  "fields_of_type BoostThread GazeboRosCameraUtils_members
     = [''callback_queue_thread_'', ''deferred_load_thread_'']
   \<and> method_names GazeboRosCameraUtils_members
     = [''Load'', ''Load'', ''OnLoad'', ''Init'', ''PutCameraData'', ''PutCameraData'',
        ''ImageConnect'', ''ImageDisconnect'', ''SetHFOV'', ''SetUpdateRate'',
        ''PublishCameraInfo'', ''PublishCameraInfo'', ''PublishCameraInfo'',
        ''InfoConnect'', ''InfoDisconnect'', ''CameraQueueThread'', ''LoadThread'']"
  by (simp add: fields_of_type_def method_names_def GazeboRosCameraUtils_members_def
      Load3_def Load4_def)

text \<open>
  C3 as the spec states it, "\<open>deferred_load_thread_\<close> is the only background thread", does
  not hold of the header: the thread members are not just that one.
\<close>

theorem only_thread_counterexample:
  "fields_of_type BoostThread GazeboRosCameraUtils_members \<noteq> [''deferred_load_thread_'']"
  by (simp add: fields_of_type_def GazeboRosCameraUtils_members_def Load3_def Load4_def)

text \<open>
  C7. The header defines one class, \<open>GazeboRosCameraUtils\<close>, and no other; the one other
  class name in it, \<open>GazeboRosMultiCamera\<close>, is declared forward (for the friend declaration
  of line 192) and not defined. The class has the simulator's side (\<open>Load\<close>, taking the
  sensor and the SDF element, and \<open>PutCameraData\<close>) and the middleware's side (the
  publishers \<open>image_pub_\<close> and \<open>camera_info_pub_\<close>, and the two handlers of \<open>Float64\<close>
  messages).
\<close>

theorem single_class_header:
  "defined_classes util_ros_cam_h = [''GazeboRosCameraUtils'']
   \<and> forward_classes util_ros_cam_h = [''GazeboRosMultiCamera'']
   \<and> map param_type (params Load3) = [SensorPtr, SdfElementPtr, Ref (Const StdString)]
   \<and> ''PutCameraData'' \<in> set (method_names GazeboRosCameraUtils_members)
   \<and> fields_of_type ImageTransportPublisher GazeboRosCameraUtils_members = [''image_pub_'']
   \<and> fields_of_type CameraInfoPublisherSharedPtr GazeboRosCameraUtils_members
       = [''camera_info_pub_'']
   \<and> methods_taking (Const Float64SharedPtr) GazeboRosCameraUtils_members
       = [''SetHFOV'', ''SetUpdateRate'']"
  by (simp add: util_ros_cam_h_def fields_of_type_def method_names_def methods_taking_def
      GazeboRosCameraUtils_members_def Load3_def Load4_def)

section \<open>Forwarding configuration changes\<close>

text \<open>
  C2. The member functions that take a \<open>Float64\<close> message are \<open>SetHFOV\<close> and
  \<open>SetUpdateRate\<close>, and no others. \<open>SetHFOV\<close> makes the message's value the camera's
  horizontal field of view and changes nothing else: putting the old camera back gives the
  old state. \<open>SetUpdateRate\<close> makes the message's value the sensor's update rate and changes
  nothing else, neither in the sensor nor in the class.
\<close>

theorem configuration_handlers:
  fixes s :: "('d, 'z) GazeboRosCameraUtils_scheme"
  shows "methods_taking (Const Float64SharedPtr) GazeboRosCameraUtils_members
       = [''SetHFOV'', ''SetUpdateRate'']
   \<and> HFOV (camera (SetHFOV m s)) = data m
   \<and> (SetHFOV m s)\<lparr>camera := camera s\<rparr> = s
   \<and> (camera (SetHFOV m s))\<lparr>HFOV := HFOV (camera s)\<rparr> = camera s
   \<and> UpdateRate (parentSensor (SetUpdateRate m s)) = data m
   \<and> (SetUpdateRate m s)\<lparr>parentSensor := parentSensor s\<rparr> = s
   \<and> (parentSensor (SetUpdateRate m s))\<lparr>UpdateRate := UpdateRate (parentSensor s)\<rparr>
       = parentSensor s"
  by (simp add: methods_taking_def GazeboRosCameraUtils_members_def Load3_def Load4_def
      SetHFOV_def SetUpdateRate_def)

section \<open>Connections and the sensor's active state\<close>

lemma sint_of_nat_32: "n < 2 ^ 31 \<Longrightarrow> sint (of_nat n :: 32 word) = int n"
  by (simp add: signed_of_nat signed_take_bit_int_eq_self)

lemma of_nat_32_eq_0: "n < 2 ^ 31 \<Longrightarrow> (of_nat n :: 32 word) = 0 \<longleftrightarrow> n = 0"
proof
  assume "n < 2 ^ 31" "(of_nat n :: 32 word) = 0"
  then have "sint (of_nat n :: 32 word) = 0" by simp
  with \<open>n < 2 ^ 31\<close> show "n = 0" by (simp add: sint_of_nat_32)
qed simp

lemma ImageConnect_inv:
  "subscription_inv a n s \<Longrightarrow> Suc n < 2 ^ 31 \<Longrightarrow> subscription_inv a (Suc n) (ImageConnect s)"
  by (auto simp: subscription_inv_def ImageConnect_def Let_def of_nat_32_eq_0)

lemma ImageDisconnect_inv:
  "subscription_inv a (Suc n) s \<Longrightarrow> Suc n < 2 ^ 31 \<Longrightarrow> subscription_inv a n (ImageDisconnect s)"
  by (auto simp: subscription_inv_def ImageDisconnect_def Let_def sint_of_nat_32)

lemma other_calls_inv:
  "subscription_inv a n (SetHFOV m s) = subscription_inv a n s"
  "subscription_inv a n (SetUpdateRate m s) = subscription_inv a n s"
  by (simp_all add: subscription_inv_def SetHFOV_def SetUpdateRate_def)

lemma run_calls_inv:
  "subscription_inv a n s \<Longrightarrow> matched n calls \<Longrightarrow> n + length calls < 2 ^ 31 \<Longrightarrow>
   subscription_inv a (open_after n calls) (run_calls calls s)"
proof (induction n calls arbitrary: s rule: matched.induct)
  case (1 n)
  then show ?case by simp
next
  case (2 n cs)
  from 2 have "subscription_inv a (Suc n) (ImageConnect s)"
    by (intro ImageConnect_inv) auto
  with 2 show ?case by simp
next
  case (3 n cs)
  from "3.prems" obtain k where n: "n = Suc k" and m: "matched k cs"
    by (cases n) auto
  from "3.prems" n have "subscription_inv a k (ImageDisconnect s)"
    by (intro ImageDisconnect_inv) auto
  with "3.IH" [OF n _ m] "3.prems" n show ?case by simp
next
  case (4 n m cs)
  then show ?case by (simp add: other_calls_inv)
next
  case (5 n m cs)
  then show ?case by (simp add: other_calls_inv)
qed

lemma open_after_count:
  "matched n calls \<Longrightarrow>
   int (open_after n calls) =
     int n + int (count_list calls CallImageConnect) - int (count_list calls CallImageDisconnect)"
proof (induction n calls rule: matched.induct)
  case (3 n cs)
  then show ?case by (auto split: nat.splits)
qed auto

text \<open>
  C9. At the first connection \<open>was_active_\<close> takes the sensor's active state, and the sensor
  is activated. After a sequence of calls that starts with no connection open, in which
  every \<open>ImageDisconnect\<close> matches an earlier \<open>ImageConnect\<close>, and that has closed every
  connection it opened, the counter is back at zero and the sensor's active state is what
  it was before the first connection.
\<close>

theorem was_active_round_trip:
  fixes s :: "('d, 'z) GazeboRosCameraUtils_scheme" and calls :: "'d call list"
  assumes "image_connect_count s = 0"
    and "matched 0 calls"
    and "length calls < 2 ^ 31"
    and "count_list calls CallImageConnect = count_list calls CallImageDisconnect"
  shows "was_active (ImageConnect s) = IsActive (parentSensor s)
       \<and> IsActive (parentSensor (ImageConnect s))
       \<and> image_connect_count (run_calls calls s) = 0
       \<and> IsActive (parentSensor (run_calls calls s)) = IsActive (parentSensor s)"
proof -
  from assms(1) have i: "subscription_inv (IsActive (parentSensor s)) 0 s"
    by (simp add: subscription_inv_def)
  from assms(2,4) have k: "open_after 0 calls = 0"
    using open_after_count [of 0 calls] by simp
  from i assms(2,3) have "subscription_inv (IsActive (parentSensor s)) (open_after 0 calls) (run_calls calls s)"
    by (intro run_calls_inv) auto
  with k have "image_connect_count (run_calls calls s) = 0
      \<and> IsActive (parentSensor (run_calls calls s)) = IsActive (parentSensor s)"
    by (simp add: subscription_inv_def)
  moreover from assms(1) have "was_active (ImageConnect s) = IsActive (parentSensor s)"
    by (simp add: ImageConnect_def Let_def)
  moreover have "IsActive (parentSensor (ImageConnect s))"
    by (simp add: ImageConnect_def Let_def)
  ultimately show ?thesis by simp
qed

text \<open>
  A sensor that was not active: with two subscribers and then none it is inactive again,
  while it is active as long as one of them is left.
\<close>

theorem was_active_round_trip_witness:
  "image_connect_count
     (GazeboRosCameraUtils_init \<lparr>IsActive = False, UpdateRate = 30\<rparr> \<lparr>HFOV = 1\<rparr> (30 :: real) 0) = 0
   \<and> matched 0 [CallImageConnect, CallImageConnect, CallImageDisconnect, CallImageDisconnect :: real call]
   \<and> length [CallImageConnect, CallImageConnect, CallImageDisconnect, CallImageDisconnect :: real call]
       < 2 ^ 31
   \<and> count_list [CallImageConnect, CallImageConnect, CallImageDisconnect, CallImageDisconnect :: real call]
        CallImageConnect
     = count_list [CallImageConnect, CallImageConnect, CallImageDisconnect, CallImageDisconnect :: real call]
        CallImageDisconnect
   \<and> \<not> IsActive (parentSensor
        (run_calls [CallImageConnect, CallImageConnect, CallImageDisconnect, CallImageDisconnect]
          (GazeboRosCameraUtils_init \<lparr>IsActive = False, UpdateRate = 30\<rparr> \<lparr>HFOV = 1\<rparr> (30 :: real) 0)))
   \<and> IsActive (parentSensor
        (run_calls [CallImageConnect, CallImageConnect, CallImageDisconnect]
          (GazeboRosCameraUtils_init \<lparr>IsActive = False, UpdateRate = 30\<rparr> \<lparr>HFOV = 1\<rparr> (30 :: real) 0)))"
proof -
  let ?cs = "[CallImageConnect, CallImageConnect, CallImageDisconnect, CallImageDisconnect :: real call]"
  let ?s0 = "GazeboRosCameraUtils_init \<lparr>IsActive = False, UpdateRate = 30\<rparr> \<lparr>HFOV = 1\<rparr> (30 :: real) 0"
  have z: "image_connect_count ?s0 = 0" by (simp add: GazeboRosCameraUtils_init_def)
  have m: "matched 0 ?cs" by simp
  have l: "length ?cs < 2 ^ 31" by simp
  have c: "count_list ?cs CallImageConnect = count_list ?cs CallImageDisconnect" by simp
  have a: "\<not> IsActive (parentSensor ?s0)" by (simp add: GazeboRosCameraUtils_init_def)
  have b: "IsActive (parentSensor (run_calls [CallImageConnect, CallImageConnect, CallImageDisconnect] ?s0))"
    by (simp add: GazeboRosCameraUtils_init_def ImageConnect_def ImageDisconnect_def Let_def)
  from was_active_round_trip [OF z m l c] a b show ?thesis using z m l c by simp
qed

end
